theory Spec2Isabelle
  imports Complex_Main "HOL-Library.FSet"
begin

unbundle bit_operations_syntax

section \<open>QuantumLayer: the two-qubit register (src/js/quantumLayer.js)\<close>

text \<open>
  JavaScript numbers are modelled as mathematical reals: rounding, overflow and NaN are
  outside the model. Array indices and qubit numbers are naturals. The register always
  holds four amplitudes (constructor, \<open>reset\<close> and \<open>measure\<close> assign four-element
  arrays, the gates copy the array they find), and the only qubits are 0 and 1; on such
  inputs every index the gates compute stays inside the array and the 32-bit integer
  operators of the source agree with the operations on naturals used here.

  The nested object \<open>this.state\<close> is flattened: its two arrays are fields of the record.
  \<open>lastMeasurement\<close> is a two-element array that is only ever read at the constant
  positions 0 and 1 and written as a whole; it is a pair.
\<close>

record QuantumLayer =
  amplitudes :: "real list"
  probabilities :: "real list"
  phase :: real
  lastMeasurement :: "nat \<times> nat"

record RhythmTrigger =
  kick :: bool
  snare :: bool
  hihat :: bool
  clap :: bool

definition QuantumLayer_new :: QuantumLayer where
  "QuantumLayer_new =
     \<lparr>amplitudes = [1, 0, 0, 0], probabilities = [1, 0, 0, 0], phase = 0,
      lastMeasurement = (0, 0)\<rparr>"

text \<open>\<open>_updateProbabilities\<close>: squares, their sum by \<open>reduce\<close>, division when the sum is positive.\<close>

definition updateProbabilities :: "QuantumLayer \<Rightarrow> QuantumLayer" where
  "updateProbabilities s =
     (let probs = map (\<lambda>a. a ^ 2) (amplitudes s);
          sum = foldl (\<lambda>acc val. acc + val) 0 probs;
          probs' = (if sum > 0 then map (\<lambda>p. p / sum) probs else probs)
      in s\<lparr>probabilities := probs'\<rparr>)"

text \<open>One pass of the loop body of \<open>applyHadamard\<close>, at index \<open>i\<close>.\<close>

definition hadamardStep :: "nat \<Rightarrow> real list \<Rightarrow> real list \<Rightarrow> nat \<Rightarrow> real list" where
  "hadamardStep qubit amps newState i =
     (let bitValue = drop_bit qubit i AND 1;
          flipMask = push_bit qubit (1::nat);
          flipIndex = i XOR flipMask;
          origVal = amps ! i;
          flipVal = amps ! flipIndex
      in if bitValue = 0
         then (newState[i := (origVal + flipVal) / sqrt 2])
                [flipIndex := (origVal - flipVal) / sqrt 2]
         else newState)"

definition applyHadamard :: "nat \<Rightarrow> QuantumLayer \<Rightarrow> QuantumLayer" where
  "applyHadamard qubit s =
     (let amps = amplitudes s;
          n = length amps;
          newState = foldl (hadamardStep qubit amps) amps [0..<n]
      in updateProbabilities (s\<lparr>amplitudes := newState\<rparr>))"

definition cnotStep :: "nat \<Rightarrow> nat \<Rightarrow> real list \<Rightarrow> real list \<Rightarrow> nat \<Rightarrow> real list" where
  "cnotStep controlQubit targetQubit amps newState i =
     (let controlValue = drop_bit controlQubit i AND 1
      in if controlValue = 1
         then (let flipMask = push_bit targetQubit (1::nat);
                   flipIndex = i XOR flipMask
               in (newState[i := amps ! flipIndex])[flipIndex := amps ! i])
         else newState)"

definition applyCNOT :: "nat \<Rightarrow> nat \<Rightarrow> QuantumLayer \<Rightarrow> QuantumLayer" where
  "applyCNOT controlQubit targetQubit s =
     (let amps = amplitudes s;
          n = length amps;
          newState = foldl (cnotStep controlQubit targetQubit amps) amps [0..<n]
      in updateProbabilities (s\<lparr>amplitudes := newState\<rparr>))"

text \<open>
  The loop body of \<open>applyPhaseRotation\<close>. The source computes \<open>imag = Math.sin(phase)\<close>
  and never reads it; the binding is kept.
\<close>

definition phaseStep :: "nat \<Rightarrow> real \<Rightarrow> real list \<Rightarrow> real list \<Rightarrow> nat \<Rightarrow> real list" where
  "phaseStep qubit ph amps newState i =
     (let bitValue = drop_bit qubit i AND 1
      in if bitValue = 1
         then (let real = cos ph;
                   imag = sin ph
               in newState[i := amps ! i * real])
         else newState)"

definition applyPhaseRotation :: "nat \<Rightarrow> real \<Rightarrow> QuantumLayer \<Rightarrow> QuantumLayer" where
  "applyPhaseRotation qubit ph s =
     (let amps = amplitudes s;
          n = length amps;
          newState = foldl (phaseStep qubit ph amps) amps [0..<n]
      in updateProbabilities (s\<lparr>amplitudes := newState\<rparr>))"

definition reset :: "QuantumLayer \<Rightarrow> QuantumLayer" where
  "reset s = s\<lparr>amplitudes := [1, 0, 0, 0], probabilities := [1, 0, 0, 0]\<rparr>"

definition mapMeasurementToRhythm :: "QuantumLayer \<Rightarrow> RhythmTrigger" where
  "mapMeasurementToRhythm s =
     (let stateValue = push_bit 1 (fst (lastMeasurement s)) OR snd (lastMeasurement s)
      in \<lparr>kick = (stateValue = 1 \<or> stateValue = 3),
          snare = (stateValue = 2 \<or> stateValue = 3),
          hihat = (stateValue = 1 \<or> stateValue = 2),
          clap = (stateValue = 3)\<rparr>)"

text \<open>
  The search loop of \<open>measure\<close>: walk the probabilities from index \<open>i\<close> with the running
  sum \<open>cumulativeProb\<close>; the first index whose running sum exceeds \<open>rand\<close> is returned
  (the \<open>break\<close>), and \<open>None\<close> when the loop runs off the end of the array.
\<close>

fun measureLoop :: "real \<Rightarrow> real list \<Rightarrow> nat \<Rightarrow> real \<Rightarrow> nat option" where
  "measureLoop rand [] i cumulativeProb = None"
| "measureLoop rand (p # ps) i cumulativeProb =
     (let cumulativeProb' = cumulativeProb + p
      in if rand < cumulativeProb' then Some i
         else measureLoop rand ps (Suc i) cumulativeProb')"

text \<open>
  \<open>measure\<close>, with the value of \<open>Math.random()\<close> as the argument \<open>rand\<close>. It returns
  the updated object and the trigger.
\<close>

definition measureState :: "real \<Rightarrow> QuantumLayer \<Rightarrow> QuantumLayer \<times> RhythmTrigger" where
  "measureState rand s =
     (let s' = (case measureLoop rand (probabilities s) 0 0 of
                  None \<Rightarrow> s
                | Some i \<Rightarrow>
                    s\<lparr>lastMeasurement := (drop_bit 1 i AND 1, i AND 1),
                      amplitudes := [0, 0, 0, 0][i := 1],
                      probabilities := [0, 0, 0, 0][i := 1]\<rparr>)
      in (s', mapMeasurementToRhythm s'))"

text \<open>
  \<open>processInput\<close> in its three stages: reset, phase assignment and the conditional
  Hadamard gates (\<open>superpose\<close>); phase rotation and CNOT (\<open>circuit\<close>); measurement.
\<close>

definition superpose :: "real \<Rightarrow> real \<Rightarrow> QuantumLayer \<Rightarrow> QuantumLayer" where
  "superpose alphaValue betaValue s =
     (let s1 = reset s;
          hadamardStrength = alphaValue;
          s2 = s1\<lparr>phase := betaValue * pi\<rparr>;
          s3 = (if hadamardStrength > 0.3 then applyHadamard 0 s2 else s2);
          s4 = (if hadamardStrength > 0.6 then applyHadamard 1 s3 else s3)
      in s4)"

definition circuit :: "real \<Rightarrow> real \<Rightarrow> QuantumLayer \<Rightarrow> QuantumLayer" where
  "circuit alphaValue betaValue s =
     (let s4 = superpose alphaValue betaValue s;
          s5 = applyPhaseRotation 0 (phase s4) s4;
          s6 = applyCNOT 0 1 s5
      in s6)"

definition processInput ::
    "real \<Rightarrow> real \<Rightarrow> real \<Rightarrow> QuantumLayer \<Rightarrow> QuantumLayer \<times> RhythmTrigger" where
  "processInput alphaValue betaValue rand s = measureState rand (circuit alphaValue betaValue s)"


text \<open>The sum of the squared amplitudes, and a register whose arrays are all zero.\<close>

definition sumOfSquares :: "real list \<Rightarrow> real" where
  "sumOfSquares amps = sum_list (map (\<lambda>a. a ^ 2) amps)"

definition zeroState :: QuantumLayer where
  "zeroState = QuantumLayer_new\<lparr>amplitudes := [0, 0, 0, 0], probabilities := [0, 0, 0, 0]\<rparr>"

section \<open>InputSystem: the two drive signals (src/js/inputSystem.js)\<close>

text \<open>
  \<open>keyActivityDecay\<close> is assigned once, in the constructor, and never written again;
  it is a constant here. The DOM meters written by \<open>_updateMeters\<close> are not modelled.
\<close>

record InputSystem =
  mouseX :: real
  mouseY :: real
  prevMouseX :: real
  prevMouseY :: real
  mouseVelocity :: real
  mouseDirection :: real
  keysPressed :: "string fset"
  keyActivityLevel :: real
  alphaValue :: real
  betaValue :: real

record InputData =
  alpha :: real
  beta :: real
  direction :: real
  keysActive :: nat

definition keyActivityDecay :: real where
  "keyActivityDecay = 0.95"

definition InputSystem_new :: InputSystem where
  "InputSystem_new =
     \<lparr>mouseX = 0, mouseY = 0, prevMouseX = 0, prevMouseY = 0, mouseVelocity = 0,
      mouseDirection = 0, keysPressed = {||}, keyActivityLevel = 0,
      alphaValue = 0, betaValue = 0\<rparr>"

definition handleMouseMove :: "real \<Rightarrow> real \<Rightarrow> InputSystem \<Rightarrow> InputSystem" where
  "handleMouseMove clientX clientY s = s\<lparr>mouseX := clientX, mouseY := clientY\<rparr>"

definition handleKeyDown :: "string \<Rightarrow> InputSystem \<Rightarrow> InputSystem" where
  "handleKeyDown key s =
     (if length key = 1
      then s\<lparr>keysPressed := finsert key (keysPressed s),
             keyActivityLevel := min 1.0 (keyActivityLevel s + 0.2)\<rparr>
      else s)"

definition handleKeyUp :: "string \<Rightarrow> InputSystem \<Rightarrow> InputSystem" where
  "handleKeyUp key s =
     (if key |\<in>| keysPressed s then s\<lparr>keysPressed := keysPressed s |-| {|key|}\<rparr> else s)"

text \<open>\<open>Math.atan2(y, x)\<close>, from the arc tangent.\<close>

definition atan2 :: "real \<Rightarrow> real \<Rightarrow> real" where
  "atan2 y x =
     (if x > 0 then arctan (y / x)
      else if x < 0 \<and> y \<ge> 0 then arctan (y / x) + pi
      else if x < 0 \<and> y < 0 then arctan (y / x) - pi
      else if y > 0 then pi / 2
      else if y < 0 then - pi / 2
      else 0)"

definition update :: "InputSystem \<Rightarrow> InputSystem \<times> InputData" where
  "update s =
     (let dx = mouseX s - prevMouseX s;
          dy = mouseY s - prevMouseY s;
          velocity = sqrt (dx * dx + dy * dy);
          dir = (if velocity > 0.1 then atan2 dy dx else mouseDirection s);
          normalizedVelocity = min 1.0 (velocity / 20);
          frequencyFactor = normalizedVelocity powr 1.5;
          alphaValue' = alphaValue s * 0.8 + frequencyFactor * 0.2;
          keyActivityLevel' = keyActivityLevel s * keyActivityDecay;
          complexityFactor = min 1.0 (real (fcard (keysPressed s)) / 5) * 0.5;
          activityFactor = keyActivityLevel' * 0.5;
          betaValue' = betaValue s * 0.7 + (complexityFactor + activityFactor) * 0.3;
          s' = s\<lparr>mouseVelocity := velocity, mouseDirection := dir,
                 prevMouseX := mouseX s, prevMouseY := mouseY s,
                 alphaValue := alphaValue', keyActivityLevel := keyActivityLevel',
                 betaValue := betaValue'\<rparr>
      in (s', \<lparr>alpha = alphaValue', beta = betaValue', direction = dir,
               keysActive = fcard (keysPressed s)\<rparr>))"

text \<open>The tracker after \<open>n\<close> consecutive calls of \<open>update\<close> with no event in between.\<close>

definition ticks :: "nat \<Rightarrow> InputSystem \<Rightarrow> InputSystem" where
  "ticks n s = ((\<lambda>t. fst (update t)) ^^ n) s"

text \<open>A tracker at rest: the pointer has not moved since the last tick and no key is held.\<close>

definition idle :: "InputSystem \<Rightarrow> bool" where
  "idle s = (mouseX s = prevMouseX s \<and> mouseY s = prevMouseY s \<and> keysPressed s = {||})"

text \<open>The tracker after one key has been pressed and released, before any tick.\<close>

definition keyTapped :: InputSystem where
  "keyTapped = handleKeyUp ''a'' (handleKeyDown ''a'' InputSystem_new)"

section \<open>AIMusicEngine: the genre blend (\<open>_updateGenreBlend\<close>, \<open>_blendGenreParams\<close>)\<close>

text \<open>
  The keys of \<open>genreParams\<close> and \<open>genreBlend\<close> are the three genres; the numeric
  parameters of a genre are the three below. \<open>genreBlend\<close> is an object whose keys the
  loop \<open>for (const genre in this.genreBlend)\<close> visits in insertion order: an
  association list.
\<close>

datatype genre = trance | dubstep | dnb

datatype paramName = temperature | stepsPerQuarter | tempoMultiplier

fun genreParams :: "genre \<Rightarrow> paramName \<Rightarrow> real" where
  "genreParams trance temperature = 0.8"
| "genreParams trance stepsPerQuarter = 4"
| "genreParams trance tempoMultiplier = 1.0"
| "genreParams dubstep temperature = 1.2"
| "genreParams dubstep stepsPerQuarter = 4"
| "genreParams dubstep tempoMultiplier = 0.5"
| "genreParams dnb temperature = 1.0"
| "genreParams dnb stepsPerQuarter = 6"
| "genreParams dnb tempoMultiplier = 1.5"

record AIMusicEngine =
  genreBlend :: "(genre \<times> real) list"

definition AIMusicEngine_new :: AIMusicEngine where
  "AIMusicEngine_new = \<lparr>genreBlend = [(trance, 0.33), (dubstep, 0.33), (dnb, 0.33)]\<rparr>"

definition updateGenreBlend :: "real \<Rightarrow> AIMusicEngine \<Rightarrow> AIMusicEngine" where
  "updateGenreBlend influenceValue e =
     (let tranceW = max 0 (1 - 2 * influenceValue);
          dnbW = max 0 (2 * influenceValue - 1);
          dubstepW = 1 - tranceW - dnbW
      in e\<lparr>genreBlend := [(trance, tranceW), (dubstep, dubstepW), (dnb, dnbW)]\<rparr>)"

definition blendGenreParams :: "paramName \<Rightarrow> real \<Rightarrow> AIMusicEngine \<Rightarrow> AIMusicEngine \<times> real" where
  "blendGenreParams p influenceValue e =
     (let e' = updateGenreBlend influenceValue e;
          (blendedValue, totalWeight) =
             foldl (\<lambda>(blendedValue, totalWeight) (g, weight).
                      (blendedValue + genreParams g p * weight, totalWeight + weight))
                   (0, 0) (genreBlend e')
      in (e', blendedValue / totalWeight))"

section \<open>App: the update tick (src/js/app.js)\<close>








section \<open>Properties of the quantum layer\<close>

lemma measureLoop_all_zero:
  "\<forall>p \<in> set ps. p = 0 \<Longrightarrow> 0 \<le> rand \<Longrightarrow> measureLoop rand ps i 0 = None"
  by (induction ps arbitrary: i) simp_all

lemma measureLoop_range:
  "measureLoop rand ps k c = Some i \<Longrightarrow> k \<le> i \<and> i < k + length ps"
proof (induction ps arbitrary: k c)
  case Nil
  then show ?case by simp
next
  case (Cons p ps)
  show ?case
  proof (cases "rand < c + p")
    case True
    with Cons.prems show ?thesis by simp
  next
    case False
    with Cons.prems have "measureLoop rand ps (Suc k) (c + p) = Some i" by simp
    from Cons.IH [OF this] show ?thesis by simp
  qed
qed

lemma foldl_add_sum_list:
  "foldl (\<lambda>acc val. acc + val) a xs = a + sum_list (xs :: real list)"
  by (induction xs arbitrary: a) simp_all

lemma sumOfSquares_nonneg: "0 \<le> sumOfSquares amps"
  unfolding sumOfSquares_def by (rule sum_list_nonneg) auto

lemma sumOfSquares_zero: "sumOfSquares amps = 0 \<Longrightarrow> a \<in> set amps \<Longrightarrow> a = 0"
proof -
  assume z: "sumOfSquares amps = 0" and a: "a \<in> set amps"
  have "(sum_list (map (\<lambda>a. a ^ 2) amps) = 0) = (\<forall>x \<in> set (map (\<lambda>a. a ^ 2) amps). x = 0)"
    by (rule sum_list_nonneg_eq_0_iff) auto
  with z have "\<forall>x \<in> set (map (\<lambda>a. a ^ 2) amps). x = 0" by (simp add: sumOfSquares_def)
  with a show "a = 0" by auto
qed

lemma sum_list_divide: "sum_list (map (\<lambda>p. p / c) xs) = sum_list xs / (c :: real)"
  by (induction xs) (simp_all add: add_divide_distrib)

lemma amplitudes_updateProbabilities [simp]:
  "amplitudes (updateProbabilities s) = amplitudes s"
  by (simp add: updateProbabilities_def Let_def)

lemma phase_updateProbabilities [simp]: "phase (updateProbabilities s) = phase s"
  by (simp add: updateProbabilities_def Let_def)

lemma lastMeasurement_updateProbabilities [simp]:
  "lastMeasurement (updateProbabilities s) = lastMeasurement s"
  by (simp add: updateProbabilities_def Let_def)

lemma probabilities_updateProbabilities:
  "probabilities (updateProbabilities s) =
     (if 0 < sumOfSquares (amplitudes s)
      then map (\<lambda>a. a ^ 2 / sumOfSquares (amplitudes s)) (amplitudes s)
      else map (\<lambda>a. a ^ 2) (amplitudes s))"
  by (simp add: updateProbabilities_def Let_def foldl_add_sum_list sumOfSquares_def comp_def)

lemma updateProbabilities_normalised:
  assumes "s' = updateProbabilities s0"
  shows "length (probabilities s') = length (amplitudes s')"
    and "0 < sumOfSquares (amplitudes s') \<Longrightarrow> i < length (amplitudes s') \<Longrightarrow>
           probabilities s' ! i = (amplitudes s' ! i) ^ 2 / sumOfSquares (amplitudes s')"
    and "0 < sumOfSquares (amplitudes s') \<Longrightarrow> sum_list (probabilities s') = 1"
    and "sumOfSquares (amplitudes s') = 0 \<Longrightarrow> i < length (amplitudes s') \<Longrightarrow>
           probabilities s' ! i = 0"
proof -
  show "length (probabilities s') = length (amplitudes s')"
    by (simp add: assms probabilities_updateProbabilities)
  show "probabilities s' ! i = (amplitudes s' ! i) ^ 2 / sumOfSquares (amplitudes s')"
    if "0 < sumOfSquares (amplitudes s')" "i < length (amplitudes s')"
    using that by (simp add: assms probabilities_updateProbabilities)
  show "sum_list (probabilities s') = 1" if "0 < sumOfSquares (amplitudes s')"
  proof -
    have "sum_list (probabilities s') =
            sum_list (map (\<lambda>p. p / sumOfSquares (amplitudes s0)) (map (\<lambda>a. a ^ 2) (amplitudes s0)))"
      using that by (simp add: assms probabilities_updateProbabilities comp_def)
    also have "\<dots> = sumOfSquares (amplitudes s0) / sumOfSquares (amplitudes s0)"
      by (simp only: sum_list_divide sumOfSquares_def)
    finally show ?thesis using that by (simp add: assms)
  qed
  show "probabilities s' ! i = 0"
    if z: "sumOfSquares (amplitudes s') = 0" and i: "i < length (amplitudes s')"
  proof -
    have "amplitudes s0 ! i = 0"
      using sumOfSquares_zero [of "amplitudes s0" "amplitudes s0 ! i"] z i
      by (simp add: assms)
    then show ?thesis using z i by (simp add: assms probabilities_updateProbabilities)
  qed
qed


lemma upt4: "[0..<4] = [0, 1, 2, 3]"
  by (simp add: upt_rec)


lemma xor_facts:
  "(0::nat) XOR 1 = 1" "(1::nat) XOR 1 = 0" "(2::nat) XOR 1 = 3" "(3::nat) XOR 1 = 2"
  "(0::nat) XOR 2 = 2" "(1::nat) XOR 2 = 3" "(2::nat) XOR 2 = 0" "(3::nat) XOR 2 = 1"
  by simp_all

lemma bit_facts:
  "(0::nat) AND 1 = 0" "(1::nat) AND 1 = 1" "(2::nat) AND 1 = 0" "(3::nat) AND 1 = 1"
  "drop_bit 1 (0::nat) = 0" "drop_bit 1 (1::nat) = 0"
  "drop_bit 1 (2::nat) = 1" "drop_bit 1 (3::nat) = 1"
  "drop_bit 0 (n::nat) = n" "push_bit 0 (1::nat) = 1" "push_bit 1 (1::nat) = 2"
  by (simp_all add: drop_bit_Suc)

lemma hadamardStep0:
  "hadamardStep 0 [a, b, c, d] [w, x, y, z] 0 = [(a + b) / sqrt 2, (a - b) / sqrt 2, y, z]"
  "hadamardStep 0 [a, b, c, d] [w, x, y, z] 1 = [w, x, y, z]"
  "hadamardStep 0 [a, b, c, d] [w, x, y, z] 2 = [w, x, (c + d) / sqrt 2, (c - d) / sqrt 2]" (is "_ = ?r")
  "hadamardStep 0 [a, b, c, d] [w, x, y, z] 3 = [w, x, y, z]"
  by (simp_all add: hadamardStep_def Let_def xor_facts bit_facts)

lemma hadamardStep1:
  "hadamardStep 1 [a, b, c, d] [w, x, y, z] 0 = [(a + c) / sqrt 2, x, (a - c) / sqrt 2, z]"
  "hadamardStep 1 [a, b, c, d] [w, x, y, z] 1 = [w, (b + d) / sqrt 2, y, (b - d) / sqrt 2]" (is "_ = ?r")
  "hadamardStep 1 [a, b, c, d] [w, x, y, z] 2 = [w, x, y, z]"
  "hadamardStep 1 [a, b, c, d] [w, x, y, z] 3 = [w, x, y, z]"
  by (simp_all add: hadamardStep_def Let_def xor_facts bit_facts)

lemma cnotStep01:
  "cnotStep 0 1 [a, b, c, d] [w, x, y, z] 0 = [w, x, y, z]"
  "cnotStep 0 1 [a, b, c, d] [w, x, y, z] 1 = [w, d, y, b]"
  "cnotStep 0 1 [a, b, c, d] [w, x, y, z] 2 = [w, x, y, z]"
  "cnotStep 0 1 [a, b, c, d] [w, x, y, z] 3 = [w, d, y, b]"
  by (simp_all add: cnotStep_def Let_def xor_facts bit_facts)

lemma phaseStep0:
  "phaseStep 0 ph [a, b, c, d] [w, x, y, z] 0 = [w, x, y, z]"
  "phaseStep 0 ph [a, b, c, d] [w, x, y, z] 1 = [w, b * cos ph, y, z]"
  "phaseStep 0 ph [a, b, c, d] [w, x, y, z] 2 = [w, x, y, z]"
  "phaseStep 0 ph [a, b, c, d] [w, x, y, z] 3 = [w, x, y, d * cos ph]"
  by (simp_all add: phaseStep_def Let_def xor_facts bit_facts)

lemma foldl_upt4:
  "length ys = 4 \<Longrightarrow> foldl f xs [0..<length ys] = f (f (f (f xs 0) 1) 2) 3"
  by (simp add: upt4)

lemma amplitudes_applyHadamard0:
  assumes A: "amplitudes s = [a, b, c, d]"
  shows "amplitudes (applyHadamard 0 s) =
     [(a + b) / sqrt 2, (a - b) / sqrt 2, (c + d) / sqrt 2, (c - d) / sqrt 2]" (is "_ = ?r")
proof -
  have len: "length (amplitudes s) = 4" by (simp add: A)
  have "foldl (hadamardStep 0 (amplitudes s)) (amplitudes s) [0..<length (amplitudes s)] = ?r"
    unfolding foldl_upt4 [OF len] by (simp only: A hadamardStep0)
  then show ?thesis by (simp add: applyHadamard_def Let_def)
qed

lemma amplitudes_applyHadamard1:
  assumes A: "amplitudes s = [a, b, c, d]"
  shows "amplitudes (applyHadamard 1 s) =
     [(a + c) / sqrt 2, (b + d) / sqrt 2, (a - c) / sqrt 2, (b - d) / sqrt 2]" (is "_ = ?r")
proof -
  have len: "length (amplitudes s) = 4" by (simp add: A)
  have "foldl (hadamardStep 1 (amplitudes s)) (amplitudes s) [0..<length (amplitudes s)] = ?r"
    unfolding foldl_upt4 [OF len] by (simp only: A hadamardStep1)
  then show ?thesis by (simp add: applyHadamard_def Let_def)
qed

lemma amplitudes_applyCNOT01:
  assumes A: "amplitudes s = [a, b, c, d]"
  shows "amplitudes (applyCNOT 0 1 s) = [a, d, c, b]" (is "_ = ?r")
proof -
  have len: "length (amplitudes s) = 4" by (simp add: A)
  have "foldl (cnotStep 0 1 (amplitudes s)) (amplitudes s) [0..<length (amplitudes s)] = ?r"
    unfolding foldl_upt4 [OF len] by (simp only: A cnotStep01)
  then show ?thesis by (simp add: applyCNOT_def Let_def)
qed

lemma amplitudes_applyPhaseRotation0:
  assumes A: "amplitudes s = [a, b, c, d]"
  shows "amplitudes (applyPhaseRotation 0 ph s) = [a, b * cos ph, c, d * cos ph]" (is "_ = ?r")
proof -
  have len: "length (amplitudes s) = 4" by (simp add: A)
  have "foldl (phaseStep 0 ph (amplitudes s)) (amplitudes s) [0..<length (amplitudes s)] = ?r"
    unfolding foldl_upt4 [OF len] by (simp only: A phaseStep0)
  then show ?thesis by (simp add: applyPhaseRotation_def Let_def)
qed

lemma length_foldl_step:
  "(\<And>ys i. length (f ys i) = length ys) \<Longrightarrow> length (foldl f xs is) = length xs"
  by (induction "is" arbitrary: xs) simp_all

lemma length_hadamardStep: "length (hadamardStep q amps ys i) = length ys"
  by (simp add: hadamardStep_def Let_def)

lemma length_cnotStep: "length (cnotStep c t amps ys i) = length ys"
  by (simp add: cnotStep_def Let_def)

lemma length_phaseStep: "length (phaseStep q ph amps ys i) = length ys"
  by (simp add: phaseStep_def Let_def)

lemma gate_shape:
  assumes "g = applyHadamard q \<or> g = applyCNOT c t \<or> g = applyPhaseRotation q ph"
  shows "\<exists>s0. g s = updateProbabilities s0 \<and> length (amplitudes s0) = length (amplitudes s)"
proof -
  consider (h) "g = applyHadamard q" | (c) "g = applyCNOT c t" | (p) "g = applyPhaseRotation q ph"
    using assms by blast
  then show ?thesis
  proof cases
    case h
    have "length (foldl (hadamardStep q (amplitudes s)) (amplitudes s) [0..<length (amplitudes s)])
            = length (amplitudes s)"
      by (rule length_foldl_step) (rule length_hadamardStep)
    then show ?thesis unfolding h applyHadamard_def Let_def
      by (intro exI conjI) (rule refl, simp)
  next
    case c
    have "length (foldl (cnotStep c t (amplitudes s)) (amplitudes s) [0..<length (amplitudes s)])
            = length (amplitudes s)"
      by (rule length_foldl_step) (rule length_cnotStep)
    then show ?thesis unfolding c applyCNOT_def Let_def
      by (intro exI conjI) (rule refl, simp)
  next
    case p
    have "length (foldl (phaseStep q ph (amplitudes s)) (amplitudes s) [0..<length (amplitudes s)])
            = length (amplitudes s)"
      by (rule length_foldl_step) (rule length_phaseStep)
    then show ?thesis unfolding p applyPhaseRotation_def Let_def
      by (intro exI conjI) (rule refl, simp)
  qed
qed

text \<open>
  Claim C2. Each gate (\<open>applyHadamard\<close>, \<open>applyCNOT\<close>, \<open>applyPhaseRotation\<close>) ends by
  recomputing the probabilities. On a four-amplitude register and qubits 0 and 1, after
  the gate: when the sum of the squared amplitudes is positive, every probability is the
  squared amplitude divided by that sum, is non-negative, and the four sum to 1; when the
  sum is zero, every probability is zero.
\<close>

theorem gates_probabilities_normalised:
  assumes gate: "g = applyHadamard q \<or> g = applyCNOT c t \<or> g = applyPhaseRotation q ph"
    and qubits: "q < 2" "c < 2" "t < 2"
    and len: "length (amplitudes s) = 4"
  shows "length (amplitudes (g s)) = 4 \<and> length (probabilities (g s)) = 4 \<and>
         (0 < sumOfSquares (amplitudes (g s)) \<longrightarrow>
            (\<forall>i<4. probabilities (g s) ! i
                      = (amplitudes (g s) ! i) ^ 2 / sumOfSquares (amplitudes (g s)) \<and>
                    0 \<le> probabilities (g s) ! i) \<and>
            sum_list (probabilities (g s)) = 1) \<and>
         (sumOfSquares (amplitudes (g s)) = 0 \<longrightarrow> (\<forall>i<4. probabilities (g s) ! i = 0))"
proof -
  obtain s0 where s0: "g s = updateProbabilities s0"
      and l0: "length (amplitudes s0) = length (amplitudes s)"
    using gate_shape [OF gate] by blast
  have la: "length (amplitudes (g s)) = 4" using s0 l0 len by simp
  note n = updateProbabilities_normalised [OF s0]
  have lp: "length (probabilities (g s)) = 4" using n(1) la by simp
  have pos: "\<forall>i<4. probabilities (g s) ! i
                      = (amplitudes (g s) ! i) ^ 2 / sumOfSquares (amplitudes (g s)) \<and>
                    0 \<le> probabilities (g s) ! i"
    if S: "0 < sumOfSquares (amplitudes (g s))"
  proof (intro allI impI)
    fix i :: nat assume "i < 4"
    then have e: "probabilities (g s) ! i
                    = (amplitudes (g s) ! i) ^ 2 / sumOfSquares (amplitudes (g s))"
      using n(2) [OF S] la by simp
    moreover have "0 \<le> (amplitudes (g s) ! i) ^ 2 / sumOfSquares (amplitudes (g s))"
      using S by simp
    ultimately show "probabilities (g s) ! i
                    = (amplitudes (g s) ! i) ^ 2 / sumOfSquares (amplitudes (g s)) \<and>
                    0 \<le> probabilities (g s) ! i" by simp
  qed
  have zero: "\<forall>i<4. probabilities (g s) ! i = 0" if "sumOfSquares (amplitudes (g s)) = 0"
    using n(4) [OF that] la by simp
  show ?thesis using la lp pos n(3) zero by blast
qed


theorem gates_probabilities_normalised_witness:
  "length (amplitudes QuantumLayer_new) = 4 \<and>
   0 < sumOfSquares (amplitudes (applyHadamard 0 QuantumLayer_new)) \<and>
   probabilities (applyHadamard 0 QuantumLayer_new) ! 0 = 1 / 2 \<and>
   sum_list (probabilities (applyHadamard 0 QuantumLayer_new)) = 1 \<and>
   sumOfSquares (amplitudes (applyPhaseRotation 0 (pi / 2) (zeroState\<lparr>amplitudes := [0, 1, 0, 0]\<rparr>))) = 0 \<and>
   probabilities (applyPhaseRotation 0 (pi / 2) (zeroState\<lparr>amplitudes := [0, 1, 0, 0]\<rparr>))
     = [0, 0, 0, 0]"
proof -
  have l1: "length (amplitudes QuantumLayer_new) = 4" by (simp add: QuantumLayer_new_def)
  have a1: "amplitudes (applyHadamard 0 QuantumLayer_new) = [1 / sqrt 2, 1 / sqrt 2, 0, 0]"
    using amplitudes_applyHadamard0 [of QuantumLayer_new 1 0 0 0]
    by (simp add: QuantumLayer_new_def)
  have s1: "sumOfSquares (amplitudes (applyHadamard 0 QuantumLayer_new)) = 1"
    by (simp add: a1 sumOfSquares_def power_divide)
  have l2: "length (amplitudes (zeroState\<lparr>amplitudes := [0, 1, 0, 0]\<rparr>)) = 4" by simp
  have a2: "amplitudes (applyPhaseRotation 0 (pi / 2) (zeroState\<lparr>amplitudes := [0, 1, 0, 0]\<rparr>))
              = [0, 0, 0, 0]"
    using amplitudes_applyPhaseRotation0 [of "zeroState\<lparr>amplitudes := [0, 1, 0, 0]\<rparr>" 0 1 0 0 "pi / 2"]
    by simp
  have s2: "sumOfSquares (amplitudes (applyPhaseRotation 0 (pi / 2) (zeroState\<lparr>amplitudes := [0, 1, 0, 0]\<rparr>))) = 0"
    by (simp add: a2 sumOfSquares_def)
  have q: "(0::nat) < 2" by simp
  have "0 < sumOfSquares (amplitudes (applyHadamard 0 QuantumLayer_new)) \<longrightarrow>
          (\<forall>i<4. probabilities (applyHadamard 0 QuantumLayer_new) ! i
                    = (amplitudes (applyHadamard 0 QuantumLayer_new) ! i) ^ 2
                        / sumOfSquares (amplitudes (applyHadamard 0 QuantumLayer_new)) \<and>
                  0 \<le> probabilities (applyHadamard 0 QuantumLayer_new) ! i) \<and>
          sum_list (probabilities (applyHadamard 0 QuantumLayer_new)) = 1"
    using gates_probabilities_normalised
            [where g = "applyHadamard 0" and q = 0 and c = 0 and t = 0
               and s = QuantumLayer_new, OF _ q q q l1]
    by blast
  then have "(\<forall>i<4. probabilities (applyHadamard 0 QuantumLayer_new) ! i
                    = (amplitudes (applyHadamard 0 QuantumLayer_new) ! i) ^ 2) \<and>
          sum_list (probabilities (applyHadamard 0 QuantumLayer_new)) = 1"
    by (simp add: s1)
  then have w1: "probabilities (applyHadamard 0 QuantumLayer_new) ! 0 = 1 / 2 \<and>
            sum_list (probabilities (applyHadamard 0 QuantumLayer_new)) = 1"
    by (simp add: a1 power_divide)
  have "length (probabilities (applyPhaseRotation 0 (pi / 2) (zeroState\<lparr>amplitudes := [0, 1, 0, 0]\<rparr>))) = 4 \<and>
        (sumOfSquares (amplitudes (applyPhaseRotation 0 (pi / 2) (zeroState\<lparr>amplitudes := [0, 1, 0, 0]\<rparr>))) = 0
          \<longrightarrow> (\<forall>i<4. probabilities (applyPhaseRotation 0 (pi / 2) (zeroState\<lparr>amplitudes := [0, 1, 0, 0]\<rparr>)) ! i = 0))"
    using gates_probabilities_normalised
            [where g = "applyPhaseRotation 0 (pi / 2)" and q = 0 and c = 0 and t = 0
               and ph = "pi / 2" and s = "zeroState\<lparr>amplitudes := [0, 1, 0, 0]\<rparr>", OF _ q q q l2]
    by blast
  then have "length (probabilities (applyPhaseRotation 0 (pi / 2) (zeroState\<lparr>amplitudes := [0, 1, 0, 0]\<rparr>))) = 4"
    and "\<forall>i<4. probabilities (applyPhaseRotation 0 (pi / 2) (zeroState\<lparr>amplitudes := [0, 1, 0, 0]\<rparr>)) ! i = 0"
    using s2 by blast+
  then have w2: "probabilities (applyPhaseRotation 0 (pi / 2) (zeroState\<lparr>amplitudes := [0, 1, 0, 0]\<rparr>))
                   = [0, 0, 0, 0]"
    by (intro nth_equalityI) (simp_all add: nth_Cons')
  show ?thesis using l1 s1 s2 w1 w2 by simp
qed

text \<open>
  Claim C10. When every entry of the probability array is zero and the draw lies in
  \<open>[0, 1)\<close>, \<open>measure\<close> returns the object as it found it (amplitudes, probabilities
  and \<open>lastMeasurement\<close> untouched) and the trigger is the one mapped from the
  \<open>lastMeasurement\<close> left by the previous call; for the initial \<open>[0, 0]\<close> that is
  the all-false trigger.
\<close>

theorem measure_zero_probabilities_frame:
  assumes "\<forall>p \<in> set (probabilities s). p = 0" and "0 \<le> rand" and "rand < 1"
  shows "measureState rand s = (s, mapMeasurementToRhythm s) \<and>
         (lastMeasurement s = (0, 0) \<longrightarrow>
            snd (measureState rand s) = \<lparr>kick = False, snare = False, hihat = False, clap = False\<rparr>)"
  using measureLoop_all_zero [OF assms(1,2)]
  by (simp add: measureState_def mapMeasurementToRhythm_def)

theorem measure_zero_probabilities_frame_witness:
  "probabilities zeroState = [0, 0, 0, 0] \<and> (0::real) \<le> 1 / 2 \<and> (1::real) / 2 < 1 \<and>
   lastMeasurement zeroState = (0, 0) \<and>
   measureState (1 / 2) zeroState =
     (zeroState, \<lparr>kick = False, snare = False, hihat = False, clap = False\<rparr>)"
proof -
  have h: "\<forall>p \<in> set (probabilities zeroState). p = 0" by (simp add: zeroState_def)
  have m: "lastMeasurement zeroState = (0, 0)" by (simp add: zeroState_def QuantumLayer_new_def)
  have z: "probabilities zeroState = [0, 0, 0, 0]" by (simp add: zeroState_def)
  from measure_zero_probabilities_frame [OF h, of "1 / 2"] z m
  show ?thesis by (auto simp add: prod_eq_iff)
qed

text \<open>
  Claim C1 says that on an all-zero probability array the collapse falls back to index 3.
  The loop of \<open>measure\<close> has no fallback: on the all-zero register with draw \<open>1/2\<close>
  neither array becomes one-hot at index 3 and the trigger is not the one of index 3.
\<close>

theorem measure_zero_probabilities_counterexample:
  "probabilities zeroState = [0, 0, 0, 0] \<and>
   amplitudes (fst (measureState (1 / 2) zeroState)) \<noteq> [0, 0, 0, 1] \<and>
   probabilities (fst (measureState (1 / 2) zeroState)) \<noteq> [0, 0, 0, 1] \<and>
   lastMeasurement (fst (measureState (1 / 2) zeroState)) \<noteq> (drop_bit 1 3 AND 1, 3 AND 1) \<and>
   snd (measureState (1 / 2) zeroState) \<noteq> \<lparr>kick = True, snare = True, hihat = False, clap = True\<rparr>"
  by (simp add: zeroState_def QuantumLayer_new_def measureState_def mapMeasurementToRhythm_def)

text \<open>
  Claim C1, amended. When every entry of the probability array is zero and the draw lies
  in \<open>[0, 1)\<close>, the loop selects no index: amplitudes and probabilities keep their
  values (the probabilities stay all-zero, not one-hot at index 3), \<open>lastMeasurement\<close>
  is kept, and the returned trigger is the one mapped from it: the trigger of index 3
  exactly when the previous \<open>lastMeasurement\<close> already encoded the value 3.
\<close>

theorem measure_zero_probabilities_no_collapse:
  assumes "\<forall>p \<in> set (probabilities s). p = 0" and "0 \<le> rand" and "rand < 1"
  shows "measureLoop rand (probabilities s) 0 0 = None \<and>
         amplitudes (fst (measureState rand s)) = amplitudes s \<and>
         probabilities (fst (measureState rand s)) = probabilities s \<and>
         probabilities (fst (measureState rand s)) \<noteq> [0, 0, 0, 1] \<and>
         lastMeasurement (fst (measureState rand s)) = lastMeasurement s \<and>
         snd (measureState rand s) = mapMeasurementToRhythm s \<and>
         (snd (measureState rand s) = \<lparr>kick = True, snare = True, hihat = False, clap = True\<rparr>
            \<longleftrightarrow> push_bit 1 (fst (lastMeasurement s)) OR snd (lastMeasurement s) = 3)"
proof -
  have n: "measureLoop rand (probabilities s) 0 0 = None"
    by (rule measureLoop_all_zero [OF assms(1,2)])
  have "probabilities s \<noteq> [0, 0, 0, 1]" using assms(1) by auto
  with n show ?thesis
    by (auto simp add: measureState_def mapMeasurementToRhythm_def Let_def)
qed

theorem measure_zero_probabilities_no_collapse_witness:
  "probabilities zeroState = [0, 0, 0, 0] \<and> (0::real) \<le> 1 / 2 \<and> (1::real) / 2 < 1 \<and>
   measureLoop (1 / 2) (probabilities zeroState) 0 0 = None \<and>
   amplitudes (fst (measureState (1 / 2) zeroState)) = [0, 0, 0, 0] \<and>
   probabilities (fst (measureState (1 / 2) zeroState)) = [0, 0, 0, 0]"
proof -
  have h: "\<forall>p \<in> set (probabilities zeroState). p = 0" by (simp add: zeroState_def)
  from measure_zero_probabilities_no_collapse [OF h, of "1 / 2"]
  show ?thesis by (simp add: zeroState_def)
qed

lemmas amplitudes_applyHadamard1_Suc = amplitudes_applyHadamard1 [unfolded One_nat_def]

lemmas amplitudes_applyCNOT01_Suc = amplitudes_applyCNOT01 [unfolded One_nat_def]

lemma probabilities_applyHadamard:
  "probabilities (applyHadamard q s) =
     (if 0 < sumOfSquares (amplitudes (applyHadamard q s))
      then map (\<lambda>a. a ^ 2 / sumOfSquares (amplitudes (applyHadamard q s)))
             (amplitudes (applyHadamard q s))
      else map (\<lambda>a. a ^ 2) (amplitudes (applyHadamard q s)))"
  by (simp add: applyHadamard_def Let_def probabilities_updateProbabilities)

lemma probabilities_applyCNOT:
  "probabilities (applyCNOT c t s) =
     (if 0 < sumOfSquares (amplitudes (applyCNOT c t s))
      then map (\<lambda>a. a ^ 2 / sumOfSquares (amplitudes (applyCNOT c t s)))
             (amplitudes (applyCNOT c t s))
      else map (\<lambda>a. a ^ 2) (amplitudes (applyCNOT c t s)))"
  by (simp add: applyCNOT_def Let_def probabilities_updateProbabilities)

lemma frame_applyHadamard [simp]:
  "phase (applyHadamard q s) = phase s"
  "lastMeasurement (applyHadamard q s) = lastMeasurement s"
  by (simp_all add: applyHadamard_def Let_def)

lemma frame_applyPhaseRotation [simp]:
  "phase (applyPhaseRotation q ph s) = phase s"
  "lastMeasurement (applyPhaseRotation q ph s) = lastMeasurement s"
  by (simp_all add: applyPhaseRotation_def Let_def)

lemma frame_applyCNOT [simp]:
  "phase (applyCNOT c t s) = phase s"
  "lastMeasurement (applyCNOT c t s) = lastMeasurement s"
  by (simp_all add: applyCNOT_def Let_def)

lemma superpose_low:
  "\<not> 0.3 < a \<Longrightarrow> superpose a b s = (reset s)\<lparr>phase := b * pi\<rparr>"
  by (simp add: superpose_def Let_def)

lemma superpose_mid:
  "0.3 < a \<Longrightarrow> \<not> 0.6 < a \<Longrightarrow> superpose a b s = applyHadamard 0 ((reset s)\<lparr>phase := b * pi\<rparr>)"
  by (simp add: superpose_def Let_def)

lemma superpose_high:
  "0.6 < a \<Longrightarrow>
   superpose a b s = applyHadamard 1 (applyHadamard 0 ((reset s)\<lparr>phase := b * pi\<rparr>))"
  by (simp add: superpose_def Let_def)

lemma phase_superpose: "phase (superpose a b s) = b * pi"
  by (simp add: superpose_def Let_def reset_def)

lemma amplitudes_superpose_low:
  "\<not> 0.3 < a \<Longrightarrow> amplitudes (superpose a b s) = [1, 0, 0, 0]"
  by (simp add: superpose_low reset_def)

lemma amplitudes_superpose_mid:
  assumes "0.3 < a" "\<not> 0.6 < a"
  shows "amplitudes (superpose a b s) = [1 / sqrt 2, 1 / sqrt 2, 0, 0]"
  using amplitudes_applyHadamard0 [of "(reset s)\<lparr>phase := b * pi\<rparr>" 1 0 0 0]
  by (simp add: superpose_mid [OF assms] reset_def)

lemma amplitudes_superpose_high:
  assumes "0.6 < a"
  shows "amplitudes (superpose a b s) = [1 / 2, 1 / 2, 1 / 2, 1 / 2]"
proof -
  have "amplitudes (applyHadamard 0 ((reset s)\<lparr>phase := b * pi\<rparr>)) = [1 / sqrt 2, 1 / sqrt 2, 0, 0]"
    using amplitudes_applyHadamard0 [of "(reset s)\<lparr>phase := b * pi\<rparr>" 1 0 0 0]
    by (simp add: reset_def)
  from amplitudes_applyHadamard1 [OF this] show ?thesis
    by (simp add: superpose_high [OF assms])
qed

lemma amplitudes_circuit:
  "amplitudes (superpose a b s) = [w, x, y, z] \<Longrightarrow>
   amplitudes (circuit a b s) = [w, z * cos (b * pi), y, x * cos (b * pi)]"
  by (simp add: circuit_def Let_def phase_superpose
        amplitudes_applyCNOT01_Suc [OF amplitudes_applyPhaseRotation0])

lemma probabilities_circuit:
  "probabilities (circuit a b s) =
     (if 0 < sumOfSquares (amplitudes (circuit a b s))
      then map (\<lambda>x. x ^ 2 / sumOfSquares (amplitudes (circuit a b s))) (amplitudes (circuit a b s))
      else map (\<lambda>x. x ^ 2) (amplitudes (circuit a b s)))"
  unfolding circuit_def Let_def by (rule probabilities_applyCNOT)

text \<open>
  Claim C6. For every \<open>driveA > 0.6\<close>, \<open>processInput\<close> applies the Hadamard gate
  to qubit 0 and then to qubit 1, and right after these two gates, before the phase
  rotation and the CNOT, the four probabilities are \<open>1/4\<close> each.
\<close>

theorem superposition_uniform:
  assumes "0.6 < a"
  shows "superpose a b s = applyHadamard 1 (applyHadamard 0 ((reset s)\<lparr>phase := b * pi\<rparr>)) \<and>
         probabilities (superpose a b s) = [1 / 4, 1 / 4, 1 / 4, 1 / 4] \<and>
         processInput a b r s =
           measureState r (applyCNOT 0 1 (applyPhaseRotation 0 (b * pi) (superpose a b s)))"
proof -
  have H: "superpose a b s = applyHadamard 1 (applyHadamard 0 ((reset s)\<lparr>phase := b * pi\<rparr>))"
    by (rule superpose_high [OF assms])
  have "probabilities (superpose a b s) =
          (if 0 < sumOfSquares (amplitudes (superpose a b s))
           then map (\<lambda>x. x ^ 2 / sumOfSquares (amplitudes (superpose a b s)))
                  (amplitudes (superpose a b s))
           else map (\<lambda>x. x ^ 2) (amplitudes (superpose a b s)))"
    unfolding H by (rule probabilities_applyHadamard)
  then have P: "probabilities (superpose a b s) = [1 / 4, 1 / 4, 1 / 4, 1 / 4]"
    by (simp add: amplitudes_superpose_high [OF assms] sumOfSquares_def power_divide)
  have C: "processInput a b r s =
           measureState r (applyCNOT 0 1 (applyPhaseRotation 0 (b * pi) (superpose a b s)))"
    by (simp add: processInput_def circuit_def Let_def phase_superpose)
  from H P C show ?thesis by (intro conjI)
qed

theorem superposition_uniform_witness:
  "(0.6::real) < 1 \<and> probabilities (superpose 1 0 QuantumLayer_new) = [1 / 4, 1 / 4, 1 / 4, 1 / 4]"
proof -
  have h: "(0.6::real) < 1" by simp
  from superposition_uniform [OF h, of 0 QuantumLayer_new 0]
  have "probabilities (superpose 1 0 QuantumLayer_new) = [1 / 4, 1 / 4, 1 / 4, 1 / 4]"
    by (elim conjE)
  with h show ?thesis by (intro conjI)
qed

text \<open>
  Claim C3. For \<open>driveA = 0\<close> and \<open>driveB = 0\<close> no Hadamard gate is applied, the
  amplitudes are \<open>[1, 0, 0, 0]\<close> after the superposition stage, after the phase
  rotation and after the CNOT, \<open>processInput\<close> measures that register, every draw in
  \<open>[0, 1)\<close> collapses to index 0 (the object returned holds the one-hot arrays at
  index 0 and the measurement \<open>(0, 0)\<close>, whatever measurement was stored before), and
  the trigger returned has all four flags false.
\<close>

theorem processInput_zero_drive:
  assumes "0 \<le> r" and "r < 1"
  shows "superpose 0 0 s = (reset s)\<lparr>phase := 0\<rparr> \<and>
         amplitudes (superpose 0 0 s) = [1, 0, 0, 0] \<and>
         amplitudes (applyPhaseRotation 0 (phase (superpose 0 0 s)) (superpose 0 0 s)) = [1, 0, 0, 0] \<and>
         amplitudes (circuit 0 0 s) = [1, 0, 0, 0] \<and>
         probabilities (circuit 0 0 s) = [1, 0, 0, 0] \<and>
         processInput 0 0 r s = measureState r (circuit 0 0 s) \<and>
         measureLoop r (probabilities (circuit 0 0 s)) 0 0 = Some 0 \<and>
         amplitudes (fst (processInput 0 0 r s)) = [1, 0, 0, 0] \<and>
         probabilities (fst (processInput 0 0 r s)) = [1, 0, 0, 0] \<and>
         lastMeasurement (fst (processInput 0 0 r s)) = (0, 0) \<and>
         phase (fst (processInput 0 0 r s)) = 0 \<and>
         snd (processInput 0 0 r s) = \<lparr>kick = False, snare = False, hihat = False, clap = False\<rparr>"
proof -
  have S: "superpose 0 0 s = (reset s)\<lparr>phase := 0\<rparr>"
    using superpose_low [of 0 0 s] by simp
  have A: "amplitudes (superpose 0 0 s) = [1, 0, 0, 0]"
    by (simp add: amplitudes_superpose_low)
  have R: "amplitudes (applyPhaseRotation 0 (phase (superpose 0 0 s)) (superpose 0 0 s)) = [1, 0, 0, 0]"
    using amplitudes_applyPhaseRotation0 [OF A] by simp
  have C: "amplitudes (circuit 0 0 s) = [1, 0, 0, 0]"
    using amplitudes_circuit [OF A] by simp
  have P: "probabilities (circuit 0 0 s) = [1, 0, 0, 0]"
    by (simp add: probabilities_circuit C sumOfSquares_def)
  have D: "processInput 0 0 r s = measureState r (circuit 0 0 s)"
    by (simp add: processInput_def)
  have M: "measureLoop r (probabilities (circuit 0 0 s)) 0 0 = Some 0"
    using assms(2) by (simp add: P)
  have F: "amplitudes (fst (processInput 0 0 r s)) = [1, 0, 0, 0]"
    by (simp add: processInput_def measureState_def M Let_def)
  have G: "probabilities (fst (processInput 0 0 r s)) = [1, 0, 0, 0]"
    by (simp add: processInput_def measureState_def M Let_def)
  have L: "lastMeasurement (fst (processInput 0 0 r s)) = (0, 0)"
    by (simp add: processInput_def measureState_def M Let_def)
  have "phase (circuit 0 0 s) = 0"
    by (simp add: circuit_def Let_def phase_superpose)
  then have H: "phase (fst (processInput 0 0 r s)) = 0"
    by (simp add: processInput_def measureState_def M Let_def)
  have T: "snd (processInput 0 0 r s) = \<lparr>kick = False, snare = False, hihat = False, clap = False\<rparr>"
    by (simp add: processInput_def measureState_def M mapMeasurementToRhythm_def Let_def)
  from S A R C P D M F G L H T show ?thesis by (intro conjI)
qed

theorem processInput_zero_drive_witness:
  "(0::real) \<le> 1 / 2 \<and> (1::real) / 2 < 1 \<and>
   lastMeasurement (zeroState\<lparr>lastMeasurement := (1, 1)\<rparr>) = (1, 1) \<and>
   measureLoop (1 / 2) (probabilities (circuit 0 0 (zeroState\<lparr>lastMeasurement := (1, 1)\<rparr>))) 0 0 = Some 0 \<and>
   amplitudes (fst (processInput 0 0 (1 / 2) (zeroState\<lparr>lastMeasurement := (1, 1)\<rparr>))) = [1, 0, 0, 0] \<and>
   probabilities (fst (processInput 0 0 (1 / 2) (zeroState\<lparr>lastMeasurement := (1, 1)\<rparr>))) = [1, 0, 0, 0] \<and>
   lastMeasurement (fst (processInput 0 0 (1 / 2) (zeroState\<lparr>lastMeasurement := (1, 1)\<rparr>))) = (0, 0) \<and>
   snd (processInput 0 0 (1 / 2) (zeroState\<lparr>lastMeasurement := (1, 1)\<rparr>))
     = \<lparr>kick = False, snare = False, hihat = False, clap = False\<rparr>"
proof -
  let ?s = "zeroState\<lparr>lastMeasurement := (1, 1)\<rparr>"
  have h: "(0::real) \<le> 1 / 2" "(1::real) / 2 < 1" by simp_all
  have l: "lastMeasurement ?s = (1, 1)" by simp
  note T = processInput_zero_drive [OF h, of ?s]
  from T have m: "measureLoop (1 / 2) (probabilities (circuit 0 0 ?s)) 0 0 = Some 0"
    by (elim conjE)
  from T have a: "amplitudes (fst (processInput 0 0 (1 / 2) ?s)) = [1, 0, 0, 0]"
    by (elim conjE)
  from T have p: "probabilities (fst (processInput 0 0 (1 / 2) ?s)) = [1, 0, 0, 0]"
    by (elim conjE)
  from T have k: "lastMeasurement (fst (processInput 0 0 (1 / 2) ?s)) = (0, 0)"
    by (elim conjE)
  from T have t: "snd (processInput 0 0 (1 / 2) ?s)
                    = \<lparr>kick = False, snare = False, hihat = False, clap = False\<rparr>"
    by (elim conjE)
  from h l m a p k t show ?thesis by (intro conjI)
qed




lemma measureState_collapsed:
  assumes m: "measureLoop r (probabilities s) 0 0 = Some i" and i: "i < 4"
  shows "lastMeasurement (fst (measureState r s)) = (drop_bit 1 i AND 1, i AND 1) \<and>
      (let m = lastMeasurement (fst (measureState r s));
           stateValue = fst m * 2 + snd m;
           t = snd (measureState r s)
       in stateValue = i \<and>
          kick t = (stateValue \<in> {1, 3}) \<and>
          snare t = (stateValue \<in> {2, 3}) \<and>
          hihat t = (stateValue \<in> {1, 2}) \<and>
          clap t = (stateValue = 3))"
proof -
  from i consider "i = 0" | "i = 1" | "i = 2" | "i = 3" by linarith
  then show ?thesis
    using m by cases (simp_all add: measureState_def Let_def mapMeasurementToRhythm_def bit_facts)
qed

text \<open>
  Claim C4. Whenever the loop of \<open>measure\<close> collapses to an index \<open>i\<close> below 4, the
  measurement stored is \<open>((i >> 1) & 1, i & 1)\<close>, and with
  \<open>stateValue = measurement[0] * 2 + measurement[1]\<close> the trigger returned has
  kick iff \<open>stateValue \<in> {1, 3}\<close>, snare iff \<open>stateValue \<in> {2, 3}\<close>, hihat iff
  \<open>stateValue \<in> {1, 2}\<close> and clap iff \<open>stateValue = 3\<close>. \<open>processInput\<close> returns
  what \<open>measure\<close> returns on the register its gates have prepared, so the same holds
  of the measurement and the trigger of \<open>processInput\<close>.
\<close>

theorem measurement_bits_and_trigger:
  "(measureLoop r (probabilities s) 0 0 = Some i \<and> i < 4 \<longrightarrow>
      lastMeasurement (fst (measureState r s)) = (drop_bit 1 i AND 1, i AND 1) \<and>
      (let m = lastMeasurement (fst (measureState r s));
           stateValue = fst m * 2 + snd m;
           t = snd (measureState r s)
       in stateValue = i \<and>
          kick t = (stateValue \<in> {1, 3}) \<and>
          snare t = (stateValue \<in> {2, 3}) \<and>
          hihat t = (stateValue \<in> {1, 2}) \<and>
          clap t = (stateValue = 3))) \<and>
   processInput a b r s0 = measureState r (circuit a b s0) \<and>
   (measureLoop r (probabilities (circuit a b s0)) 0 0 = Some i \<and> i < 4 \<longrightarrow>
      lastMeasurement (fst (processInput a b r s0)) = (drop_bit 1 i AND 1, i AND 1) \<and>
      (let m = lastMeasurement (fst (processInput a b r s0));
           stateValue = fst m * 2 + snd m;
           t = snd (processInput a b r s0)
       in stateValue = i \<and>
          kick t = (stateValue \<in> {1, 3}) \<and>
          snare t = (stateValue \<in> {2, 3}) \<and>
          hihat t = (stateValue \<in> {1, 2}) \<and>
          clap t = (stateValue = 3)))"
proof -
  have 1: "measureLoop r (probabilities s) 0 0 = Some i \<and> i < 4 \<longrightarrow>
      lastMeasurement (fst (measureState r s)) = (drop_bit 1 i AND 1, i AND 1) \<and>
      (let m = lastMeasurement (fst (measureState r s));
           stateValue = fst m * 2 + snd m;
           t = snd (measureState r s)
       in stateValue = i \<and>
          kick t = (stateValue \<in> {1, 3}) \<and>
          snare t = (stateValue \<in> {2, 3}) \<and>
          hihat t = (stateValue \<in> {1, 2}) \<and>
          clap t = (stateValue = 3))"
    using measureState_collapsed [of r s i] by blast
  have 2: "processInput a b r s0 = measureState r (circuit a b s0)"
    by (simp add: processInput_def)
  have 3: "measureLoop r (probabilities (circuit a b s0)) 0 0 = Some i \<and> i < 4 \<longrightarrow>
      lastMeasurement (fst (processInput a b r s0)) = (drop_bit 1 i AND 1, i AND 1) \<and>
      (let m = lastMeasurement (fst (processInput a b r s0));
           stateValue = fst m * 2 + snd m;
           t = snd (processInput a b r s0)
       in stateValue = i \<and>
          kick t = (stateValue \<in> {1, 3}) \<and>
          snare t = (stateValue \<in> {2, 3}) \<and>
          hihat t = (stateValue \<in> {1, 2}) \<and>
          clap t = (stateValue = 3))"
    unfolding 2 using measureState_collapsed [of r "circuit a b s0" i] by blast
  from 1 2 3 show ?thesis by (intro conjI)
qed

theorem measurement_bits_and_trigger_witness:
  "measureLoop (3 / 5) (probabilities (circuit 1 0 QuantumLayer_new)) 0 0 = Some 2 \<and>
   (2::nat) < 4 \<and>
   lastMeasurement (fst (measureState (3 / 5) (circuit 1 0 QuantumLayer_new))) = (1, 0) \<and>
   lastMeasurement (fst (processInput 1 0 (3 / 5) QuantumLayer_new)) = (1, 0) \<and>
   snare (snd (processInput 1 0 (3 / 5) QuantumLayer_new)) \<and>
   hihat (snd (processInput 1 0 (3 / 5) QuantumLayer_new)) \<and>
   \<not> kick (snd (processInput 1 0 (3 / 5) QuantumLayer_new)) \<and>
   \<not> clap (snd (processInput 1 0 (3 / 5) QuantumLayer_new))"
proof -
  let ?c = "circuit 1 0 QuantumLayer_new"
  have h: "(0.6::real) < 1" by simp
  have A: "amplitudes ?c = [1 / 2, 1 / 2, 1 / 2, 1 / 2]"
    using amplitudes_circuit [OF amplitudes_superpose_high [OF h, of 0 QuantumLayer_new]]
    by simp
  have P: "probabilities ?c = [1 / 4, 1 / 4, 1 / 4, 1 / 4]"
    by (simp add: probabilities_circuit A sumOfSquares_def power_divide)
  have m: "measureLoop (3 / 5) (probabilities ?c) 0 0 = Some 2"
    by (simp add: P eval_nat_numeral)
  have i: "(2::nat) < 4" by simp
  note T = measurement_bits_and_trigger [of "3 / 5" ?c 2 1 0 QuantumLayer_new]
  from T m i have a: "lastMeasurement (fst (measureState (3 / 5) ?c)) = (1, 0)"
    by (auto simp add: bit_facts)
  from T m i have b:
    "lastMeasurement (fst (processInput 1 0 (3 / 5) QuantumLayer_new)) = (1, 0) \<and>
     snare (snd (processInput 1 0 (3 / 5) QuantumLayer_new)) \<and>
     hihat (snd (processInput 1 0 (3 / 5) QuantumLayer_new)) \<and>
     \<not> kick (snd (processInput 1 0 (3 / 5) QuantumLayer_new)) \<and>
     \<not> clap (snd (processInput 1 0 (3 / 5) QuantumLayer_new))"
    by (auto simp add: Let_def bit_facts)
  from m i a b show ?thesis by blast
qed

section \<open>Properties of the genre blend\<close>

lemma genreBlend_updateGenreBlend:
  "genreBlend (updateGenreBlend x e) =
     [(trance, max 0 (1 - 2 * x)),
      (dubstep, 1 - max 0 (1 - 2 * x) - max 0 (2 * x - 1)),
      (dnb, max 0 (2 * x - 1))]"
  by (simp add: updateGenreBlend_def Let_def)

lemma snd_blendGenreParams:
  "snd (blendGenreParams p x e) =
     (genreParams trance p * max 0 (1 - 2 * x)
      + genreParams dubstep p * (1 - max 0 (1 - 2 * x) - max 0 (2 * x - 1))
      + genreParams dnb p * max 0 (2 * x - 1))
     / (max 0 (1 - 2 * x) + (1 - max 0 (1 - 2 * x) - max 0 (2 * x - 1)) + max 0 (2 * x - 1))"
  by (simp add: blendGenreParams_def Let_def genreBlend_updateGenreBlend)

text \<open>
  Claim C7. For every influence \<open>x\<close> in \<open>[0, 1]\<close> the blend stored by
  \<open>_updateGenreBlend\<close> has the weights \<open>wLow = max(0, 1 - 2x)\<close> (trance),
  \<open>wHigh = max(0, 2x - 1)\<close> (dnb) and \<open>wMid = 1 - wLow - wHigh\<close> (dubstep); they are
  non-negative and sum to 1, and the value returned by \<open>_blendGenreParams\<close> is the
  weighted sum of the three preset values divided by the total weight. At \<open>x = 0\<close>,
  \<open>x = 1/2\<close> and \<open>x = 1\<close> the weights are \<open>(1, 0, 0)\<close>, \<open>(0, 1, 0)\<close> and
  \<open>(0, 0, 1)\<close>.
\<close>

theorem blend_weights_simplex:
  assumes "0 \<le> x" and "x \<le> 1"
  shows "(\<exists>wLow wMid wHigh.
           genreBlend (updateGenreBlend x e) = [(trance, wLow), (dubstep, wMid), (dnb, wHigh)] \<and>
           wLow = max 0 (1 - 2 * x) \<and> wHigh = max 0 (2 * x - 1) \<and> wMid = 1 - wLow - wHigh \<and>
           0 \<le> wLow \<and> 0 \<le> wMid \<and> 0 \<le> wHigh \<and> wLow + wMid + wHigh = 1 \<and>
           fst (blendGenreParams p x e) = updateGenreBlend x e \<and>
           snd (blendGenreParams p x e) =
             (genreParams trance p * wLow + genreParams dubstep p * wMid
              + genreParams dnb p * wHigh) / (wLow + wMid + wHigh)) \<and>
         genreBlend (updateGenreBlend 0 e) = [(trance, 1), (dubstep, 0), (dnb, 0)] \<and>
         genreBlend (updateGenreBlend (1 / 2) e) = [(trance, 0), (dubstep, 1), (dnb, 0)] \<and>
         genreBlend (updateGenreBlend 1 e) = [(trance, 0), (dubstep, 0), (dnb, 1)]"
proof -
  have mid: "0 \<le> 1 - max 0 (1 - 2 * x) - max 0 (2 * x - 1)"
    using assms by (simp add: max_def)
  have f: "fst (blendGenreParams p x e) = updateGenreBlend x e"
    by (simp add: blendGenreParams_def Let_def split_beta)
  have main: "\<exists>wLow wMid wHigh.
           genreBlend (updateGenreBlend x e) = [(trance, wLow), (dubstep, wMid), (dnb, wHigh)] \<and>
           wLow = max 0 (1 - 2 * x) \<and> wHigh = max 0 (2 * x - 1) \<and> wMid = 1 - wLow - wHigh \<and>
           0 \<le> wLow \<and> 0 \<le> wMid \<and> 0 \<le> wHigh \<and> wLow + wMid + wHigh = 1 \<and>
           fst (blendGenreParams p x e) = updateGenreBlend x e \<and>
           snd (blendGenreParams p x e) =
             (genreParams trance p * wLow + genreParams dubstep p * wMid
              + genreParams dnb p * wHigh) / (wLow + wMid + wHigh)"
    apply (rule exI [of _ "max 0 (1 - 2 * x)"])
    apply (rule exI [of _ "1 - max 0 (1 - 2 * x) - max 0 (2 * x - 1)"])
    apply (rule exI [of _ "max 0 (2 * x - 1)"])
    apply (intro conjI)
             apply (rule genreBlend_updateGenreBlend)
            apply (rule refl)
           apply (rule refl)
          apply (rule refl)
         apply simp
        apply (rule mid)
       apply simp
      apply simp
     apply (rule f)
    apply (rule snd_blendGenreParams)
    done
  have e0: "genreBlend (updateGenreBlend 0 e) = [(trance, 1), (dubstep, 0), (dnb, 0)]"
    by (simp add: genreBlend_updateGenreBlend)
  have e1: "genreBlend (updateGenreBlend (1 / 2) e) = [(trance, 0), (dubstep, 1), (dnb, 0)]"
    by (simp add: genreBlend_updateGenreBlend)
  have e2: "genreBlend (updateGenreBlend 1 e) = [(trance, 0), (dubstep, 0), (dnb, 1)]"
    by (simp add: genreBlend_updateGenreBlend)
  from main e0 e1 e2 show ?thesis by (intro conjI)
qed

theorem blend_weights_simplex_witness:
  "(0::real) \<le> 1 / 4 \<and> (1::real) / 4 \<le> 1 \<and>
   genreBlend (updateGenreBlend (1 / 4) AIMusicEngine_new)
     = [(trance, 1 / 2), (dubstep, 1 / 2), (dnb, 0)] \<and>
   snd (blendGenreParams temperature (1 / 4) AIMusicEngine_new) = 1"
proof -
  have h: "(0::real) \<le> 1 / 4" "(1::real) / 4 \<le> 1" by simp_all
  from blend_weights_simplex [OF h, of AIMusicEngine_new temperature]
  obtain wLow wMid wHigh where
    g: "genreBlend (updateGenreBlend (1 / 4) AIMusicEngine_new)
          = [(trance, wLow), (dubstep, wMid), (dnb, wHigh)]"
    and w: "wLow = max 0 (1 - 2 * (1 / 4))" "wHigh = max 0 (2 * (1 / 4) - 1)"
           "wMid = 1 - wLow - wHigh"
    and v: "snd (blendGenreParams temperature (1 / 4) AIMusicEngine_new) =
             (genreParams trance temperature * wLow + genreParams dubstep temperature * wMid
              + genreParams dnb temperature * wHigh) / (wLow + wMid + wHigh)"
    by blast
  have w': "wLow = 1 / 2" "wHigh = 0" "wMid = 1 / 2" using w by simp_all
  from g v h show ?thesis by (simp add: w')
qed

section \<open>Properties of the update tick\<close>




section \<open>Properties of the signal tracker\<close>

lemma update_idle:
  assumes "idle s"
  shows "idle (fst (update s))"
    and "alphaValue (fst (update s)) = alphaValue s * 0.8"
    and "keyActivityLevel (fst (update s)) = keyActivityLevel s * 0.95"
    and "betaValue (fst (update s)) = betaValue s * 0.7 + keyActivityLevel s * 0.1425"
  using assms
  by (simp_all add: idle_def update_def Let_def keyActivityDecay_def fcard_fempty)

lemma ticks_Suc: "ticks (Suc n) s = fst (update (ticks n s))"
  by (simp add: ticks_def)

lemma ticks_idle: "idle s \<Longrightarrow> idle (ticks n s)"
  by (induction n) (simp_all add: ticks_Suc update_idle(1), simp add: ticks_def)

lemma ticks_alpha: "idle s \<Longrightarrow> alphaValue (ticks n s) = alphaValue s * 0.8 ^ n"
  by (induction n) (simp add: ticks_def, simp add: ticks_Suc update_idle(2) ticks_idle)

lemma ticks_key: "idle s \<Longrightarrow> keyActivityLevel (ticks n s) = keyActivityLevel s * 0.95 ^ n"
  by (induction n) (simp add: ticks_def, simp add: ticks_Suc update_idle(3) ticks_idle)

lemma ticks_beta:
  "idle s \<Longrightarrow>
   betaValue (ticks n s) = betaValue s * 0.7 ^ n + keyActivityLevel s * 0.57 * (0.95 ^ n - 0.7 ^ n)"
proof (induction n)
  case 0
  then show ?case by (simp add: ticks_def)
next
  case (Suc n)
  have "betaValue (ticks (Suc n) s) =
          betaValue (ticks n s) * 0.7 + keyActivityLevel (ticks n s) * 0.1425"
    by (simp add: ticks_Suc update_idle(4) ticks_idle Suc.prems)
  also have "\<dots> = (betaValue s * 0.7 ^ n + keyActivityLevel s * 0.57 * (0.95 ^ n - 0.7 ^ n)) * 0.7
                    + keyActivityLevel s * 0.95 ^ n * 0.1425"
    by (simp add: Suc.IH [OF Suc.prems] ticks_key [OF Suc.prems])
  also have "\<dots> = betaValue s * 0.7 ^ Suc n
                    + keyActivityLevel s * 0.57 * (0.95 ^ Suc n - 0.7 ^ Suc n)"
    by (simp add: algebra_simps)
  finally show ?case .
qed

lemma ticks_bounds:
  assumes "idle s" and "0 \<le> alphaValue s" and "alphaValue s \<le> 1"
    and "0 \<le> betaValue s" and "betaValue s \<le> 1"
    and "0 \<le> keyActivityLevel s" and "keyActivityLevel s \<le> 1"
  shows "0 \<le> alphaValue (ticks n s) \<and> alphaValue (ticks n s) \<le> 1 \<and>
         0 \<le> betaValue (ticks n s) \<and> betaValue (ticks n s) \<le> 1 \<and>
         0 \<le> keyActivityLevel (ticks n s) \<and> keyActivityLevel (ticks n s) \<le> 1"
proof (induction n)
  case 0
  with assms show ?case by (simp add: ticks_def)
next
  case (Suc n)
  note i = ticks_idle [OF assms(1), of n]
  from Suc show ?case
    by (simp add: ticks_Suc update_idle(2-4) [OF i])
qed

lemma ticks_alpha_step:
  assumes "idle s"
  shows "alphaValue (ticks (Suc n) s) = alphaValue (ticks n s) * 0.8"
  by (simp add: ticks_Suc update_idle(2) [OF ticks_idle [OF assms]])

lemma ticks_beta_step:
  assumes "idle s"
  shows "betaValue (ticks (Suc n) s) =
           betaValue (ticks n s) * 0.7 + keyActivityLevel (ticks n s) * 0.1425"
  by (simp add: ticks_Suc update_idle(4) [OF ticks_idle [OF assms]])

lemma ticks_alpha_limit:
  assumes "idle s"
  shows "(\<lambda>n. alphaValue (ticks n s)) \<longlonglongrightarrow> 0"
proof -
  have p: "(\<lambda>n. (0.8::real) ^ n) \<longlonglongrightarrow> 0"
    by (rule LIMSEQ_realpow_zero) simp_all
  have "(\<lambda>n. alphaValue s * 0.8 ^ n) \<longlonglongrightarrow> alphaValue s * 0"
    by (intro tendsto_intros p)
  then show ?thesis by (simp add: ticks_alpha [OF assms])
qed

lemma ticks_beta_limit:
  assumes "idle s"
  shows "(\<lambda>n. betaValue (ticks n s)) \<longlonglongrightarrow> 0"
proof -
  have p7: "(\<lambda>n. (0.7::real) ^ n) \<longlonglongrightarrow> 0"
    by (rule LIMSEQ_realpow_zero) simp_all
  have p95: "(\<lambda>n. (0.95::real) ^ n) \<longlonglongrightarrow> 0"
    by (rule LIMSEQ_realpow_zero) simp_all
  have "(\<lambda>n. betaValue s * 0.7 ^ n + keyActivityLevel s * 0.57 * (0.95 ^ n - 0.7 ^ n))
          \<longlonglongrightarrow> betaValue s * 0 + keyActivityLevel s * 0.57 * (0 - 0)"
    by (intro tendsto_intros p7 p95)
  then show ?thesis by (simp add: ticks_beta [OF assms])
qed

text \<open>
  Claim C9 says that at rest both drive values decrease on every tick. The key-activity
  level left by earlier key presses still feeds \<open>betaValue\<close>: after one key has been
  pressed and released the tracker is at rest with both drive values 0, and the next
  tick raises \<open>betaValue\<close>.
\<close>

theorem idle_decay_counterexample:
  "idle keyTapped \<and> alphaValue keyTapped = 0 \<and> betaValue keyTapped = 0 \<and>
   betaValue keyTapped < betaValue (fst (update keyTapped))"
  by (simp add: keyTapped_def handleKeyDown_def handleKeyUp_def InputSystem_new_def idle_def
        update_def Let_def keyActivityDecay_def fcard_fempty)

text \<open>
  Claim C9, amended. For every tracker at rest (no pointer displacement, no key held)
  with drive values and key-activity level in \<open>[0, 1]\<close>, under repeated \<open>update\<close>:
  \<open>alphaValue\<close> decreases on every tick, both drive values stay in \<open>[0, 1]\<close> (never
  negative) and both converge to 0; \<open>betaValue\<close> decreases on a tick exactly when
  \<open>0.475 * keyActivityLevel \<le> betaValue\<close> holds before it, in particular on every
  tick when the key-activity level is 0.
\<close>

theorem idle_decay:
  assumes "idle s" and "0 \<le> alphaValue s" and "alphaValue s \<le> 1"
    and "0 \<le> betaValue s" and "betaValue s \<le> 1"
    and "0 \<le> keyActivityLevel s" and "keyActivityLevel s \<le> 1"
  shows "(\<forall>n. alphaValue (ticks (Suc n) s) \<le> alphaValue (ticks n s) \<and>
              0 \<le> alphaValue (ticks n s) \<and> alphaValue (ticks n s) \<le> 1 \<and>
              0 \<le> betaValue (ticks n s) \<and> betaValue (ticks n s) \<le> 1 \<and>
              (betaValue (ticks (Suc n) s) \<le> betaValue (ticks n s)
                 \<longleftrightarrow> 0.475 * keyActivityLevel (ticks n s) \<le> betaValue (ticks n s))) \<and>
         (keyActivityLevel s = 0 \<longrightarrow>
            (\<forall>n. betaValue (ticks (Suc n) s) \<le> betaValue (ticks n s))) \<and>
         (\<lambda>n. alphaValue (ticks n s)) \<longlonglongrightarrow> 0 \<and>
         (\<lambda>n. betaValue (ticks n s)) \<longlonglongrightarrow> 0"
proof (intro conjI allI impI)
  fix n
  note b = ticks_bounds [OF assms, of n]
  show "alphaValue (ticks (Suc n) s) \<le> alphaValue (ticks n s)"
    using b by (simp add: ticks_alpha_step [OF assms(1)])
  show "0 \<le> alphaValue (ticks n s)" "alphaValue (ticks n s) \<le> 1"
    "0 \<le> betaValue (ticks n s)" "betaValue (ticks n s) \<le> 1"
    using b by simp_all
  show "(betaValue (ticks (Suc n) s) \<le> betaValue (ticks n s))
          = (0.475 * keyActivityLevel (ticks n s) \<le> betaValue (ticks n s))"
    by (simp add: ticks_beta_step [OF assms(1)]) argo
next
  fix n
  assume "keyActivityLevel s = 0"
  then have "keyActivityLevel (ticks n s) = 0" by (simp add: ticks_key [OF assms(1)])
  with ticks_bounds [OF assms, of n]
  show "betaValue (ticks (Suc n) s) \<le> betaValue (ticks n s)"
    by (simp add: ticks_beta_step [OF assms(1)])
next
  show "(\<lambda>n. alphaValue (ticks n s)) \<longlonglongrightarrow> 0"
    by (rule ticks_alpha_limit [OF assms(1)])
  show "(\<lambda>n. betaValue (ticks n s)) \<longlonglongrightarrow> 0"
    by (rule ticks_beta_limit [OF assms(1)])
qed

theorem idle_decay_witness:
  "idle (InputSystem_new\<lparr>alphaValue := 1 / 2, betaValue := 1 / 2\<rparr>) \<and>
   keyActivityLevel (InputSystem_new\<lparr>alphaValue := 1 / 2, betaValue := 1 / 2\<rparr>) = 0 \<and>
   alphaValue (ticks (Suc 0) (InputSystem_new\<lparr>alphaValue := 1 / 2, betaValue := 1 / 2\<rparr>))
     \<le> alphaValue (ticks 0 (InputSystem_new\<lparr>alphaValue := 1 / 2, betaValue := 1 / 2\<rparr>)) \<and>
   betaValue (ticks (Suc 0) (InputSystem_new\<lparr>alphaValue := 1 / 2, betaValue := 1 / 2\<rparr>))
     \<le> betaValue (ticks 0 (InputSystem_new\<lparr>alphaValue := 1 / 2, betaValue := 1 / 2\<rparr>)) \<and>
   0 \<le> betaValue (ticks (Suc 0) (InputSystem_new\<lparr>alphaValue := 1 / 2, betaValue := 1 / 2\<rparr>)) \<and>
   (\<lambda>n. betaValue (ticks n (InputSystem_new\<lparr>alphaValue := 1 / 2, betaValue := 1 / 2\<rparr>)))
     \<longlonglongrightarrow> 0"
proof -
  let ?s = "InputSystem_new\<lparr>alphaValue := 1 / 2, betaValue := 1 / 2\<rparr>"
  have i: "idle ?s" by (simp add: idle_def InputSystem_new_def)
  have k: "keyActivityLevel ?s = 0" by (simp add: InputSystem_new_def)
  have h: "0 \<le> alphaValue ?s" "alphaValue ?s \<le> 1" "0 \<le> betaValue ?s" "betaValue ?s \<le> 1"
    "0 \<le> keyActivityLevel ?s" "keyActivityLevel ?s \<le> 1"
    by (simp_all add: InputSystem_new_def)
  note T = idle_decay [OF i h]
  from T have a: "alphaValue (ticks (Suc 0) ?s) \<le> alphaValue (ticks 0 ?s)" by blast
  from T k have b: "betaValue (ticks (Suc 0) ?s) \<le> betaValue (ticks 0 ?s)" by blast
  from T have c: "0 \<le> betaValue (ticks (Suc 0) ?s)" by blast
  from T have d: "(\<lambda>n. betaValue (ticks n ?s)) \<longlonglongrightarrow> 0" by blast
  from i k a b c d show ?thesis by (intro conjI)
qed

end
